theory Spec2Isabelle
  imports Complex_Main "HOL-Library.Product_Lexorder" "HOL-Library.Multiset"
begin

section \<open>Metal Prices Dashboard: the core of app.py\<close>

text \<open>
  The theory embeds the part of \<^verbatim>\<open>app.py\<close> that is not presentation: the price store and
  the price history kept in the session, the spreadsheet import
  (\<^verbatim>\<open>load_prices_from_excel\<close> and the upload branch of \<^verbatim>\<open>main\<close>), the history
  operations (\<^verbatim>\<open>update_price_history\<close>, the clear button, the sorted copy made by
  \<^verbatim>\<open>create_price_chart\<close>, the CSV download) and \<^verbatim>\<open>calculate_portfolio_value\<close>.

  Python floats are not given a fixed HOL type. Every definition is polymorphic in the
  type \<open>'a\<close> of prices and quantities and uses only the operations the source applies to
  them (\<open>0\<close>, \<open>+\<close>, \<open>*\<close>, \<open>>\<close>), with no algebraic law assumed, so the general theorems
  hold for IEEE doubles as for any other arithmetic. Concrete examples are evaluated
  at type \<open>real\<close>, on values where double arithmetic is exact.
\<close>

subsection \<open>Data model\<close>

text \<open>
  The four dictionary keys \<^verbatim>\<open>'gold'\<close>, \<^verbatim>\<open>'silver'\<close>, \<^verbatim>\<open>'platinum'\<close>,
  \<^verbatim>\<open>'palladium'\<close>. \<open>metals\<close> is the list literal every loop of the source iterates over.
\<close>

datatype metal = Gold | Silver | Platinum | Palladium

definition metals :: "metal list" where
  "metals = [Gold, Silver, Platinum, Palladium]"

fun key :: "metal \<Rightarrow> string" where
  "key Gold = ''gold''"
| "key Silver = ''silver''"
| "key Platinum = ''platinum''"
| "key Palladium = ''palladium''"

text \<open>
  A calendar date (\<^verbatim>\<open>datetime.date\<close>) is the triple (year, month, day); Python compares
  dates in this lexicographic order.
\<close>

type_synonym date = "nat \<times> nat \<times> nat"

text \<open>
  One row of the \<^verbatim>\<open>price_history\<close> DataFrame: the \<^verbatim>\<open>date\<close> column and the four metal
  columns. The DataFrame is the list of its rows in index order.
\<close>

record 'a history_row =
  date :: date
  price :: "metal \<Rightarrow> 'a"

text \<open>
  \<^verbatim>\<open>st.session_state\<close> after \<^verbatim>\<open>initialize_session_state\<close>. The two dictionaries always
  hold exactly the four keys (they are created with them and no key is ever deleted), so
  they are total functions on \<open>metal\<close>.
\<close>

record 'a session_state =
  metal_prices :: "metal \<Rightarrow> 'a"
  price_history :: "'a history_row list"
  portfolio_holdings :: "metal \<Rightarrow> 'a"

text \<open>
  \<^verbatim>\<open>st.session_state\<close> as the hosting framework hands it over at the start of a run: each
  of the three entries may be absent.
\<close>

record 'a stored_state =
  stored_metal_prices :: "(metal \<Rightarrow> 'a) option"
  stored_price_history :: "'a history_row list option"
  stored_portfolio_holdings :: "(metal \<Rightarrow> 'a) option"

fun default_prices :: "metal \<Rightarrow> 'a::numeral" where
  "default_prices Gold = 2000"
| "default_prices Silver = 25"
| "default_prices Platinum = 950"
| "default_prices Palladium = 1800"

text \<open>
  \<^verbatim>\<open>initialize_session_state\<close>: three independent \<^verbatim>\<open>if key not in st.session_state\<close>
  blocks; the seeded history row reads the prices that are in the session by then.
  \<open>today\<close> is the value of \<^verbatim>\<open>datetime.now().date()\<close>.
\<close>

definition initialize_session_state ::
  "date \<Rightarrow> ('a::{numeral,zero}) stored_state \<Rightarrow> 'a session_state" where
  "initialize_session_state today st =
     (let mp = (case stored_metal_prices st of None \<Rightarrow> default_prices | Some p \<Rightarrow> p);
          ph = (case stored_price_history st of
                  None \<Rightarrow> [\<lparr>date = today, price = mp\<rparr>]
                | Some h \<Rightarrow> h);
          hs = (case stored_portfolio_holdings st of None \<Rightarrow> (\<lambda>_. 0) | Some h \<Rightarrow> h)
      in \<lparr>metal_prices = mp, price_history = ph, portfolio_holdings = hs\<rparr>)"

subsection \<open>Portfolio calculator\<close>

text \<open>
  \<^verbatim>\<open>str.capitalize\<close> on ASCII text: the first character in upper case, the others in
  lower case.
\<close>

definition upper :: "char \<Rightarrow> char" where
  "upper c = (let n = of_char c :: nat in if 97 \<le> n \<and> n \<le> 122 then char_of (n - 32) else c)"

definition lower :: "char \<Rightarrow> char" where
  "lower c = (let n = of_char c :: nat in if 65 \<le> n \<and> n \<le> 90 then char_of (n + 32) else c)"

definition capitalize :: "string \<Rightarrow> string" where
  "capitalize s = (case s of [] \<Rightarrow> [] | c # cs \<Rightarrow> upper c # map lower cs)"

text \<open>
  One dictionary appended to \<^verbatim>\<open>portfolio_breakdown\<close>, with its four entries
  \<^verbatim>\<open>'Metal'\<close>, \<^verbatim>\<open>'Holdings (oz)'\<close>, \<^verbatim>\<open>'Price ($/oz)'\<close>, \<^verbatim>\<open>'Value ($)'\<close>.
\<close>

record 'a portfolio_line =
  Metal :: string
  Holdings_oz :: 'a
  Price_per_oz :: 'a
  Value :: 'a

text \<open>
  The body of the \<^verbatim>\<open>for metal in [...]\<close> loop of \<^verbatim>\<open>calculate_portfolio_value\<close>, on
  the pair of the two variables the loop updates.
\<close>

definition portfolio_step ::
  "(metal \<Rightarrow> 'a) \<Rightarrow> (metal \<Rightarrow> 'a) \<Rightarrow> 'a \<times> 'a portfolio_line list \<Rightarrow> metal
     \<Rightarrow> ('a::{plus,times,zero,ord}) \<times> 'a portfolio_line list" where
  "portfolio_step holdings prices acc metal =
     (case acc of (total_value, portfolio_breakdown) \<Rightarrow>
        (let holding = holdings metal;
             price = prices metal;
             value = holding * price;
             total_value = total_value + value
         in (total_value,
             if holding > 0
             then portfolio_breakdown @
                    [\<lparr>Metal = capitalize (key metal), Holdings_oz = holding,
                      Price_per_oz = price, Value = value\<rparr>]
             else portfolio_breakdown)))"

definition calculate_portfolio_value ::
  "('a::{plus,times,zero,ord}) session_state \<Rightarrow> 'a \<times> 'a portfolio_line list" where
  "calculate_portfolio_value s =
     (let holdings = portfolio_holdings s;
          prices = metal_prices s
      in foldl (portfolio_step holdings prices) (0, []) metals)"

text \<open>The line the claim describes for one metal: (metal, holding, price, holding * price).\<close>

definition line_of :: "(metal \<Rightarrow> 'a) \<Rightarrow> (metal \<Rightarrow> 'a) \<Rightarrow> metal \<Rightarrow> ('a::times) portfolio_line" where
  "line_of holdings prices m =
     \<lparr>Metal = capitalize (key m), Holdings_oz = holdings m, Price_per_oz = prices m,
      Value = holdings m * prices m\<rparr>"

text \<open>The holdings and prices of the spec's worked example.\<close>

fun example_holdings :: "metal \<Rightarrow> real" where
  "example_holdings Gold = 2"
| "example_holdings Silver = 0"
| "example_holdings Platinum = 1"
| "example_holdings Palladium = 0"

definition example_session :: "real session_state" where
  "example_session =
     \<lparr>metal_prices = default_prices, price_history = [], portfolio_holdings = example_holdings\<rparr>"

subsection \<open>History log\<close>

text \<open>
  \<^verbatim>\<open>price_history.loc[mask, metal] = v\<close> with \<^verbatim>\<open>mask = price_history['date'] == today\<close>:
  the column \<open>metal\<close> is set to \<open>v\<close> in every row whose date is \<open>today\<close>.
\<close>

definition loc_set :: "date \<Rightarrow> metal \<Rightarrow> 'a \<Rightarrow> 'a history_row list \<Rightarrow> 'a history_row list" where
  "loc_set today metal v df =
     map (\<lambda>r. if date r = today then r\<lparr>price := (price r)(metal := v)\<rparr> else r) df"

text \<open>
  \<^verbatim>\<open>update_price_history\<close>. \<open>today\<close> is the value of \<^verbatim>\<open>datetime.now().date()\<close>; the
  membership test is on the values of the \<^verbatim>\<open>date\<close> column; \<^verbatim>\<open>pd.concat\<close> with
  \<^verbatim>\<open>ignore_index=True\<close> appends the new row at the end.
\<close>

definition update_price_history :: "date \<Rightarrow> 'a session_state \<Rightarrow> 'a session_state" where
  "update_price_history today s =
     (let current_prices = metal_prices s
      in if today \<notin> set (map date (price_history s))
         then s\<lparr>price_history := price_history s @ [\<lparr>date = today, price = current_prices\<rparr>]\<rparr>
         else s\<lparr>price_history :=
                  foldl (\<lambda>df metal. loc_set today metal (current_prices metal) df)
                    (price_history s) metals\<rparr>)"

text \<open>
  The price inputs of \<^verbatim>\<open>main\<close> write the four values they return into
  \<^verbatim>\<open>metal_prices\<close> (they are the current prices of the next
  \<^verbatim>\<open>update_price_history\<close>), the reset button stores the default dictionary and the
  clear button replaces the history by one row for today with the current prices.
\<close>

definition set_prices :: "(metal \<Rightarrow> 'a) \<Rightarrow> 'a session_state \<Rightarrow> 'a session_state" where
  "set_prices inputs s = s\<lparr>metal_prices := inputs\<rparr>"

definition reset_all_prices :: "('a::numeral) session_state \<Rightarrow> 'a session_state" where
  "reset_all_prices s = s\<lparr>metal_prices := default_prices\<rparr>"

definition clear_history :: "date \<Rightarrow> 'a session_state \<Rightarrow> 'a session_state" where
  "clear_history today s = s\<lparr>price_history := [\<lparr>date = today, price = metal_prices s\<rparr>]\<rparr>"

text \<open>
  The spec's \<open>snapshot(today, currentPrices)\<close>: \<^verbatim>\<open>update_price_history\<close> run on \<open>today\<close>
  with \<open>currentPrices\<close> in the price store; \<open>snapshots\<close> is a sequence of such calls.
\<close>

definition snapshot :: "date \<Rightarrow> (metal \<Rightarrow> 'a) \<Rightarrow> 'a session_state \<Rightarrow> 'a session_state" where
  "snapshot today current_prices s = update_price_history today (set_prices current_prices s)"

definition snapshots :: "(date \<times> (metal \<Rightarrow> 'a)) list \<Rightarrow> 'a session_state \<Rightarrow> 'a session_state" where
  "snapshots calls s = foldl (\<lambda>s' c. snapshot (fst c) (snd c) s') s calls"





text \<open>
  \<^verbatim>\<open>df.sort_values('date')\<close>, which returns a new DataFrame. The model sorts stably;
  the sort pandas uses by default need not keep the order of rows of equal date.
\<close>

definition sort_values_date :: "'a history_row list \<Rightarrow> 'a history_row list" where
  "sort_values_date df = sort_key date df"

text \<open>One \<^verbatim>\<open>go.Scatter\<close> trace of the figure: its name and its x and y data.\<close>

record 'a trace =
  trace_name :: string
  trace_x :: "date list"
  trace_y :: "'a list"

text \<open>
  \<^verbatim>\<open>create_price_chart\<close>: it works on a sorted copy of the history and returns no figure
  for a history of at most one row. The session is returned next to the result, so that
  what the function does to it is part of the model.
\<close>

definition create_price_chart :: "'a session_state \<Rightarrow> 'a trace list option \<times> 'a session_state" where
  "create_price_chart s =
     (let df = price_history s;
          df = sort_values_date df
      in if length df \<le> 1 then (None, s)
         else (Some (map (\<lambda>metal. \<lparr>trace_name = capitalize (key metal),
                                     trace_x = map date df,
                                     trace_y = map (\<lambda>r. price r metal) df\<rparr>) metals), s))"

subsection \<open>CSV download\<close>








text \<open>
  A session whose history is not in date order: seeded on 2024-01-02, then one
  \<^verbatim>\<open>update_price_history\<close> on 2024-01-01.
\<close>

definition fresh :: "'a stored_state" where
  "fresh = \<lparr>stored_metal_prices = None, stored_price_history = None,
            stored_portfolio_holdings = None\<rparr>"

definition unsorted_session :: "real session_state" where
  "unsorted_session =
     update_price_history (2024, 1, 1) (initialize_session_state (2024, 1, 2) fresh)"










subsection \<open>Spreadsheet import\<close>

text \<open>
  What \<^verbatim>\<open>df.iloc[i, j]\<close> can hold after \<^verbatim>\<open>pd.read_excel(uploaded_file, header=None)\<close>:
  nothing (NaN, for which \<^verbatim>\<open>pd.notna\<close> is false), a number or a text. A cell is
  \<open>None\<close> when it is empty.
\<close>

datatype 'a content = Number 'a | Text string

type_synonym 'a cell = "'a content option"

text \<open>A raised exception, with the message \<^verbatim>\<open>str(e)\<close> gives.\<close>

datatype py_exception = ValueError string | IndexError string | OtherException string

fun str :: "py_exception \<Rightarrow> string" where
  "str (ValueError msg) = msg"
| "str (IndexError msg) = msg"
| "str (OtherException msg) = msg"

text \<open>
  The parsed table: \<^verbatim>\<open>df.shape\<close> and the cell at each position. \<^verbatim>\<open>iloc\<close> raises
  outside the shape; after the shape test of \<^verbatim>\<open>load_prices_from_excel\<close> that branch is
  not taken, and the text of its message plays no role.
\<close>

record 'a dataframe =
  nrows :: nat
  ncols :: nat
  cells :: "nat \<Rightarrow> nat \<Rightarrow> 'a cell"

definition iloc :: "'a dataframe \<Rightarrow> nat \<Rightarrow> nat \<Rightarrow> py_exception + 'a cell" where
  "iloc df i j =
     (if i < nrows df \<and> j < ncols df then Inr (cells df i j)
      else Inl (IndexError ''index out of bounds''))"

text \<open>
  \<^verbatim>\<open>float(x)\<close>: a number is its own value; on a text the builtin parses it or raises
  \<^verbatim>\<open>ValueError\<close>. The parser of the runtime is the parameter \<open>str2float\<close>.
\<close>

fun py_float :: "(string \<Rightarrow> py_exception + 'a) \<Rightarrow> 'a content \<Rightarrow> py_exception + 'a" where
  "py_float str2float (Number v) = Inr v"
| "py_float str2float (Text t) = str2float t"

text \<open>
  One of the four blocks
  \<^verbatim>\<open>if pd.notna(df.iloc[i, 3]): prices[metal] = float(df.iloc[i, 3])\<close>:
  the dictionary after the block, or the exception the block raises.
\<close>

definition stage ::
  "(string \<Rightarrow> py_exception + 'a) \<Rightarrow> 'a dataframe \<Rightarrow> nat \<Rightarrow> metal \<Rightarrow> (metal \<rightharpoonup> 'a)
     \<Rightarrow> py_exception + (metal \<rightharpoonup> 'a)" where
  "stage str2float df i metal prices =
     (case iloc df i 3 of
        Inl e \<Rightarrow> Inl e
      | Inr None \<Rightarrow> Inr prices
      | Inr (Some c) \<Rightarrow>
          (case py_float str2float c of
             Inl e \<Rightarrow> Inl e
           | Inr v \<Rightarrow> Inr (prices(metal \<mapsto> v))))"

text \<open>
  The body of the \<^verbatim>\<open>try\<close> block of \<^verbatim>\<open>load_prices_from_excel\<close>. Its argument is the
  outcome of \<^verbatim>\<open>pd.read_excel\<close>: the parsed table, or the exception raised while reading.
\<close>

definition try_body ::
  "(string \<Rightarrow> py_exception + 'a) \<Rightarrow> py_exception + 'a dataframe
     \<Rightarrow> py_exception + ((metal \<rightharpoonup> 'a) option \<times> string option)" where
  "try_body str2float uploaded_file =
     (case uploaded_file of
        Inl e \<Rightarrow> Inl e
      | Inr df \<Rightarrow>
          if nrows df \<ge> 7 \<and> ncols df \<ge> 4
          then (case stage str2float df 3 Gold Map.empty of
                  Inl e \<Rightarrow> Inl e
                | Inr prices \<Rightarrow>
              (case stage str2float df 4 Silver prices of
                  Inl e \<Rightarrow> Inl e
                | Inr prices \<Rightarrow>
              (case stage str2float df 5 Platinum prices of
                  Inl e \<Rightarrow> Inl e
                | Inr prices \<Rightarrow>
              (case stage str2float df 6 Palladium prices of
                  Inl e \<Rightarrow> Inl e
                | Inr prices \<Rightarrow> Inr (Some prices, None)))))
          else Inr (None,
                 Some ''Excel file doesn't have enough rows/columns to read from D4:D7''))"

text \<open>
  \<^verbatim>\<open>load_prices_from_excel\<close>: the pair \<^verbatim>\<open>(prices, error)\<close> it returns;
  \<^verbatim>\<open>except Exception as e\<close> turns every exception of the body into an error message.
\<close>

definition load_prices_from_excel ::
  "(string \<Rightarrow> py_exception + 'a) \<Rightarrow> py_exception + 'a dataframe
     \<Rightarrow> (metal \<rightharpoonup> 'a) option \<times> string option" where
  "load_prices_from_excel str2float uploaded_file =
     (case try_body str2float uploaded_file of
        Inl e \<Rightarrow> (None, Some (''Error reading Excel file: '' @ str e))
      | Inr result \<Rightarrow> result)"

text \<open>
  Python truth values of the two results: \<^verbatim>\<open>None\<close>, the empty dictionary (no key among
  the four it can hold) and the empty string are false. \<^verbatim>\<open>dict.update\<close> overwrites the
  keys of its argument and keeps the others.
\<close>

definition has_key :: "(metal \<rightharpoonup> 'a) \<Rightarrow> metal \<Rightarrow> bool" where
  "has_key m k = (case m k of None \<Rightarrow> False | Some v \<Rightarrow> True)"

definition truthy_dict :: "(metal \<rightharpoonup> 'a) option \<Rightarrow> bool" where
  "truthy_dict d = (case d of None \<Rightarrow> False | Some m \<Rightarrow> 0 < length (filter (has_key m) metals))"

definition truthy_str :: "string option \<Rightarrow> bool" where
  "truthy_str e = (case e of None \<Rightarrow> False | Some msg \<Rightarrow> msg \<noteq> [])"

definition dict_update :: "(metal \<Rightarrow> 'a) \<Rightarrow> (metal \<rightharpoonup> 'a) \<Rightarrow> metal \<Rightarrow> 'a" where
  "dict_update d prices = (\<lambda>k. case prices k of Some v \<Rightarrow> v | None \<Rightarrow> d k)"

text \<open>
  The upload branch of \<^verbatim>\<open>main\<close>: \<open>uploaded_file\<close> is \<open>None\<close> when no file was chosen.
  The result is the session and the notice shown: \<^verbatim>\<open>st.success\<close> or \<^verbatim>\<open>st.error\<close> with
  the error text (the decoration of the messages is left out).
\<close>

datatype notice = success | error string

definition upload ::
  "(string \<Rightarrow> py_exception + 'a) \<Rightarrow> (py_exception + 'a dataframe) option \<Rightarrow> 'a session_state
     \<Rightarrow> 'a session_state \<times> notice list" where
  "upload str2float uploaded_file s =
     (case uploaded_file of
        None \<Rightarrow> (s, [])
      | Some f \<Rightarrow>
          (case load_prices_from_excel str2float f of
             (prices, err) \<Rightarrow>
               if truthy_dict prices
               then (s\<lparr>metal_prices := dict_update (metal_prices s) (the prices)\<rparr>, [success])
               else if truthy_str err then (s, [error (the err)])
               else (s, [])))"

text \<open>
  \<^verbatim>\<open>pd.read_excel(uploaded_file, header=None)\<close>, modelled from the library (it is not
  code of this repository): its argument is the exception the reader raises on a file it
  cannot read, or the grid of the first sheet as the file holds it. With the default
  arguments the reader takes a text from its list of missing-value markers for an empty
  cell (the list of pandas 1.5, the oldest version the requirements name).
\<close>

definition na_values :: "string list" where
  "na_values =
     ['''', ''#N/A'', ''#N/A N/A'', ''#NA'', ''-1.#IND'', ''-1.#QNAN'', ''-NaN'', ''-nan'',
      ''1.#IND'', ''1.#QNAN'', ''<NA>'', ''N/A'', ''NA'', ''NULL'', ''NaN'', ''n/a'', ''nan'',
      ''null'']"

definition na_filter :: "'a cell \<Rightarrow> 'a cell" where
  "na_filter c =
     (case c of
        None \<Rightarrow> None
      | Some (Number v) \<Rightarrow> Some (Number v)
      | Some (Text t) \<Rightarrow> if t \<in> set na_values then None else Some (Text t))"

definition read_excel :: "py_exception + 'a dataframe \<Rightarrow> py_exception + 'a dataframe" where
  "read_excel file =
     (case file of
        Inl e \<Rightarrow> Inl e
      | Inr book \<Rightarrow> Inr (book\<lparr>cells := \<lambda>i j. na_filter (cells book i j)\<rparr>))"

text \<open>
  For the statements about the import: the row of each metal's cell (0-based, column 3),
  whether a cell is empty or coerces, and the dictionary the claims describe (each metal
  whose cell is not empty, with the coerced value).
\<close>

fun target_row :: "metal \<Rightarrow> nat" where
  "target_row Gold = 3"
| "target_row Silver = 4"
| "target_row Platinum = 5"
| "target_row Palladium = 6"

declare target_row.simps [simp del]

definition non_numeric :: "(string \<Rightarrow> py_exception + 'a) \<Rightarrow> 'a cell \<Rightarrow> bool" where
  "non_numeric str2float c =
     (case c of None \<Rightarrow> False
      | Some x \<Rightarrow> (case py_float str2float x of Inl e \<Rightarrow> True | Inr v \<Rightarrow> False))"

definition found :: "(string \<Rightarrow> py_exception + 'a) \<Rightarrow> 'a dataframe \<Rightarrow> metal \<rightharpoonup> 'a" where
  "found str2float df metal =
     (case cells df (target_row metal) 3 of
        None \<Rightarrow> None
      | Some x \<Rightarrow> (case py_float str2float x of Inl e \<Rightarrow> None | Inr v \<Rightarrow> Some v))"

text \<open>
  Example sheets of 7 rows and 4 columns, empty but for column D: one with the text N/A
  in D5 between numbers, one with the text abc there, one with D6 empty between numbers
  and one with -5 in D4; a sheet of 5 rows; and a text parser that rejects every text
  with the message of \<^verbatim>\<open>float\<close>, as it does for abc.
\<close>

definition sheet :: "nat \<Rightarrow> 'a cell \<Rightarrow> 'a cell \<Rightarrow> 'a cell \<Rightarrow> 'a cell \<Rightarrow> 'a dataframe" where
  "sheet n d4 d5 d6 d7 =
     \<lparr>nrows = n, ncols = 4,
      cells = (\<lambda>i j. if j = 3 \<and> i = 3 then d4 else if j = 3 \<and> i = 4 then d5
                      else if j = 3 \<and> i = 5 then d6 else if j = 3 \<and> i = 6 then d7 else None)\<rparr>"

definition reject :: "string \<Rightarrow> py_exception + real" where
  "reject t =
     Inl (ValueError (''could not convert string to float: '' @ [CHR 0x27] @ t @ [CHR 0x27]))"

definition na_sheet :: "real dataframe" where
  "na_sheet = sheet 7 (Some (Number 2500)) (Some (Text ''N/A'')) (Some (Number 1000)) (Some (Number 2200))"

definition text_sheet :: "real dataframe" where
  "text_sheet = sheet 7 (Some (Number 2500)) (Some (Text ''abc'')) (Some (Number 1000)) (Some (Number 2200))"

definition gap_sheet :: "real dataframe" where
  "gap_sheet = sheet 7 (Some (Number 2500)) (Some (Number 30)) None (Some (Number 2200))"

definition negative_sheet :: "real dataframe" where
  "negative_sheet = sheet 7 (Some (Number (- 5))) None None None"

definition short_sheet :: "real dataframe" where
  "short_sheet = sheet 5 (Some (Number 2500)) (Some (Number 30)) None None"

definition seeded :: "real session_state" where
  "seeded = initialize_session_state (2024, 1, 2) fresh"

definition example_calls :: "(date \<times> (metal \<Rightarrow> real)) list" where
  "example_calls = [((2024, 1, 3), default_prices), ((2024, 1, 1), example_holdings)]"

section \<open>Theorems\<close>

subsection \<open>Portfolio value\<close>

lemma capitalize_key:
  "capitalize ''gold'' = ''Gold''" "capitalize ''silver'' = ''Silver''"
  "capitalize ''platinum'' = ''Platinum''" "capitalize ''palladium'' = ''Palladium''"
  by code_simp+

text \<open>
  C2. \<^verbatim>\<open>calculate_portfolio_value\<close> returns as total the sum of
  \<open>holdings[metal] * prices[metal]\<close> over the four metals, accumulated from \<open>0\<close> in the
  order gold, silver, platinum, palladium with the arithmetic of the number type (no law
  of real arithmetic is used), and as breakdown exactly one line (metal, holding, price,
  holding * price) for each metal whose holding is greater than zero, in that same order.
  For holdings gold 2, silver 0, platinum 1, palladium 0 and prices 2000, 25, 950, 1800
  the total is 4950 and the breakdown is the gold line followed by the platinum line.
\<close>

theorem calculate_portfolio_value_spec:
  "calculate_portfolio_value (s :: ('a::{plus,times,zero,ord}) session_state) =
     (0 + portfolio_holdings s Gold * metal_prices s Gold
        + portfolio_holdings s Silver * metal_prices s Silver
        + portfolio_holdings s Platinum * metal_prices s Platinum
        + portfolio_holdings s Palladium * metal_prices s Palladium,
      map (line_of (portfolio_holdings s) (metal_prices s))
        (filter (\<lambda>m. portfolio_holdings s m > 0) [Gold, Silver, Platinum, Palladium]))
   \<and> calculate_portfolio_value example_session =
     (4950,
      [\<lparr>Metal = ''Gold'', Holdings_oz = 2, Price_per_oz = 2000, Value = 4000\<rparr>,
       \<lparr>Metal = ''Platinum'', Holdings_oz = 1, Price_per_oz = 950, Value = 950\<rparr>])"
proof
  show "calculate_portfolio_value s =
     (0 + portfolio_holdings s Gold * metal_prices s Gold
        + portfolio_holdings s Silver * metal_prices s Silver
        + portfolio_holdings s Platinum * metal_prices s Platinum
        + portfolio_holdings s Palladium * metal_prices s Palladium,
      map (line_of (portfolio_holdings s) (metal_prices s))
        (filter (\<lambda>m. portfolio_holdings s m > 0) [Gold, Silver, Platinum, Palladium]))"
    by (simp add: calculate_portfolio_value_def metals_def portfolio_step_def line_of_def Let_def)
  show "calculate_portfolio_value example_session =
     (4950,
      [\<lparr>Metal = ''Gold'', Holdings_oz = 2, Price_per_oz = 2000, Value = 4000\<rparr>,
       \<lparr>Metal = ''Platinum'', Holdings_oz = 1, Price_per_oz = 950, Value = 950\<rparr>])"
    by (simp add: calculate_portfolio_value_def metals_def portfolio_step_def Let_def
        example_session_def capitalize_key)
qed

subsection \<open>Snapshots of the history\<close>

lemma fun_upd_all_metals:
  "f(Gold := g Gold, Silver := g Silver, Platinum := g Platinum, Palladium := g Palladium) = g"
proof
  fix m show "(f(Gold := g Gold, Silver := g Silver, Platinum := g Platinum, Palladium := g Palladium)) m = g m"
    by (cases m) simp_all
qed

lemma overwrite_rows:
  "foldl (\<lambda>df metal. loc_set today metal (cp metal) df) df metals =
     map (\<lambda>r. if date r = today then r\<lparr>price := cp\<rparr> else r) df"
  by (simp add: metals_def loc_set_def fun_upd_all_metals cong: if_cong)

lemma price_history_update:
  "price_history (update_price_history today s) =
     (if today \<in> set (map date (price_history s))
      then map (\<lambda>r. if date r = today then r\<lparr>price := metal_prices s\<rparr> else r) (price_history s)
      else price_history s @ [\<lparr>date = today, price = metal_prices s\<rparr>])"
  by (simp add: update_price_history_def overwrite_rows Let_def)

lemma dates_update:
  "map date (price_history (update_price_history today s)) =
     (if today \<in> set (map date (price_history s)) then map date (price_history s)
      else map date (price_history s) @ [today])"
  by (simp add: price_history_update o_def cong: map_cong)

lemma metal_prices_update [simp]: "metal_prices (update_price_history today s) = metal_prices s"
  by (simp add: update_price_history_def Let_def)

lemma holdings_update [simp]: "portfolio_holdings (update_price_history today s) = portfolio_holdings s"
  by (simp add: update_price_history_def Let_def)

lemma distinct_dates_update:
  "distinct (map date (price_history s)) \<Longrightarrow>
   distinct (map date (price_history (update_price_history today s)))"
  by (simp add: dates_update)

lemma filter_other_overwrite:
  "filter (\<lambda>r. date r \<noteq> today) (map (\<lambda>r. if date r = today then r\<lparr>price := cp\<rparr> else r) df) =
   filter (\<lambda>r. date r \<noteq> today) df"
  by (induction df) auto

lemma filter_other_update:
  "filter (\<lambda>r. date r \<noteq> today) (price_history (update_price_history today s)) =
   filter (\<lambda>r. date r \<noteq> today) (price_history s)"
  by (simp add: price_history_update filter_other_overwrite)

lemma filter_today_absent:
  "today \<notin> set (map date df) \<Longrightarrow> filter (\<lambda>r. date r = today) df = []"
  by (induction df) auto

lemma filter_today_overwrite:
  "filter (\<lambda>r. date r = today) (map (\<lambda>r. if date r = today then r\<lparr>price := cp\<rparr> else r) df) =
   map (\<lambda>r. r\<lparr>price := cp\<rparr>) (filter (\<lambda>r. date r = today) df)"
  by (induction df) auto

lemma filter_today_update:
  "filter (\<lambda>r. date r = today) (price_history (update_price_history today s)) =
     (if today \<in> set (map date (price_history s))
      then map (\<lambda>r. r\<lparr>price := metal_prices s\<rparr>) (filter (\<lambda>r. date r = today) (price_history s))
      else [\<lparr>date = today, price = metal_prices s\<rparr>])"
  by (simp add: price_history_update filter_today_overwrite filter_today_absent)

lemma single_today:
  assumes "length (filter (\<lambda>r. date r = today) (price_history s)) \<le> 1"
  shows "filter (\<lambda>r. date r = today) (price_history (update_price_history today s)) =
           [\<lparr>date = today, price = metal_prices s\<rparr>]"
proof (cases "today \<in> set (map date (price_history s))")
  case False
  then show ?thesis by (simp add: filter_today_update)
next
  case True
  then obtain r where r: "r \<in> set (price_history s)" "date r = today" by auto
  then have "r \<in> set (filter (\<lambda>r. date r = today) (price_history s))" by simp
  with assms obtain r' where f: "filter (\<lambda>r. date r = today) (price_history s) = [r']"
    by (cases "filter (\<lambda>r. date r = today) (price_history s)") auto
  then have "r' \<in> set (filter (\<lambda>r. date r = today) (price_history s))" by simp
  then have "date r' = today" by simp
  then have "r'\<lparr>price := metal_prices s\<rparr> = \<lparr>date = today, price = metal_prices s\<rparr>" by simp
  with True f show ?thesis by (simp add: filter_today_update)
qed

lemma snapshot_simps [simp]:
  "metal_prices (snapshot d P s) = P"
  "portfolio_holdings (snapshot d P s) = portfolio_holdings s"
  by (simp_all add: snapshot_def set_prices_def)

lemma price_history_set_prices [simp]: "price_history (set_prices P s) = price_history s"
  by (simp add: set_prices_def)

lemma metal_prices_set_prices [simp]: "metal_prices (set_prices P s) = P"
  by (simp add: set_prices_def)

lemma price_history_seeded: "price_history seeded = [\<lparr>date = (2024, 1, 2), price = default_prices\<rparr>]"
  by (simp add: seeded_def initialize_session_state_def fresh_def)

text \<open>
  C4. Take a history with at most one row for the date \<open>d\<close> (the one-row-per-date invariant
  at \<open>d\<close>). Two snapshots on \<open>d\<close> with the same prices \<open>P\<close> leave exactly one row for
  \<open>d\<close>, holding \<open>P\<close>, and the second of them changes nothing at all. A snapshot with
  \<open>P1\<close> followed by one with \<open>P2\<close> on the same date leaves exactly one row for \<open>d\<close>,
  holding \<open>P2\<close>.
\<close>
theorem snapshot_idempotent_last_write_wins:
  assumes "length (filter (\<lambda>r. date r = d) (price_history s)) \<le> 1"
  shows "filter (\<lambda>r. date r = d) (price_history (snapshot d P (snapshot d P s))) =
           [\<lparr>date = d, price = P\<rparr>]
         \<and> snapshot d P (snapshot d P s) = snapshot d P s
         \<and> filter (\<lambda>r. date r = d) (price_history (snapshot d P2 (snapshot d P1 s))) =
           [\<lparr>date = d, price = P2\<rparr>]"
proof -
  have one: "filter (\<lambda>r. date r = d) (price_history (snapshot d Q s)) = [\<lparr>date = d, price = Q\<rparr>]" for Q
    using single_today [of d "set_prices Q s"] assms by (simp add: snapshot_def)
  have two: "filter (\<lambda>r. date r = d) (price_history (snapshot d Q' (snapshot d Q s))) =
               [\<lparr>date = d, price = Q'\<rparr>]" for Q Q'
    using single_today [of d "set_prices Q' (snapshot d Q s)"] one [of Q]
    by (simp add: snapshot_def [of d Q'])
  have present: "d \<in> set (map date (price_history (snapshot d P s)))"
    by (simp add: snapshot_def dates_update)
  have "price_history (snapshot d P (snapshot d P s)) = price_history (snapshot d P s)"
  proof -
    have "price_history (snapshot d P (snapshot d P s)) =
            map (\<lambda>r. if date r = d then r\<lparr>price := P\<rparr> else r) (price_history (snapshot d P s))"
      using present by (simp add: snapshot_def [of d P "snapshot d P s"] price_history_update)
    also have "\<dots> = price_history (snapshot d P s)"
    proof (rule map_idI)
      fix r assume "r \<in> set (price_history (snapshot d P s))"
      show "(if date r = d then r\<lparr>price := P\<rparr> else r) = r"
      proof (cases "date r = d")
        case True
        with \<open>r \<in> set (price_history (snapshot d P s))\<close>
        have "r \<in> set (filter (\<lambda>r. date r = d) (price_history (snapshot d P s)))" by simp
        then have "r = \<lparr>date = d, price = P\<rparr>" by (simp add: one)
        then show ?thesis by simp
      qed simp
    qed
    finally show ?thesis .
  qed
  then have "snapshot d P (snapshot d P s) = snapshot d P s"
    by (intro session_state.equality) simp_all
  with one two show ?thesis by simp
qed

theorem snapshot_idempotent_last_write_wins_witness:
  "length (filter (\<lambda>r. date r = (2024, 1, 1)) (price_history seeded)) \<le> 1
   \<and> filter (\<lambda>r. date r = (2024, 1, 1))
       (price_history (snapshot (2024, 1, 1) example_holdings (snapshot (2024, 1, 1) default_prices seeded))) =
       [\<lparr>date = (2024, 1, 1), price = example_holdings\<rparr>]
   \<and> length (filter (\<lambda>r. date r = (2024, 1, 2)) (price_history seeded)) \<le> 1
   \<and> filter (\<lambda>r. date r = (2024, 1, 2))
       (price_history (snapshot (2024, 1, 2) example_holdings (snapshot (2024, 1, 2) default_prices seeded))) =
       [\<lparr>date = (2024, 1, 2), price = example_holdings\<rparr>]"
proof -
  have h1: "length (filter (\<lambda>r. date r = (2024, 1, 1)) (price_history seeded)) \<le> 1"
    by (simp add: price_history_seeded)
  have h2: "length (filter (\<lambda>r. date r = (2024, 1, 2)) (price_history seeded)) \<le> 1"
    by (simp add: price_history_seeded)
  show ?thesis
    using h1 h2
      snapshot_idempotent_last_write_wins [OF h1, where ?P1.0 = default_prices and ?P2.0 = example_holdings]
      snapshot_idempotent_last_write_wins [OF h2, where ?P1.0 = default_prices and ?P2.0 = example_holdings]
    by blast
qed

text \<open>
  C10. \<^verbatim>\<open>update_price_history\<close> leaves every row of another date as it was: the rows
  whose date is not \<open>today\<close> are the same rows, with the same prices, in the same order,
  before and after, whether today's row is appended or overwritten. The same holds for
  the snapshot with any current prices.
\<close>
theorem update_price_history_frame:
  "filter (\<lambda>r. date r \<noteq> today) (price_history (update_price_history today s)) =
     filter (\<lambda>r. date r \<noteq> today) (price_history s)
   \<and> filter (\<lambda>r. date r \<noteq> today) (price_history (snapshot today current_prices s)) =
     filter (\<lambda>r. date r \<noteq> today) (price_history s)"
  by (simp add: filter_other_update snapshot_def)

lemma dates_snapshot:
  "map date (price_history (snapshot d P s)) =
     (if d \<in> set (map date (price_history s)) then map date (price_history s)
      else map date (price_history s) @ [d])"
  by (simp add: snapshot_def dates_update)

lemma distinct_dates_snapshots:
  "distinct (map date (price_history s)) \<Longrightarrow>
   distinct (map date (price_history (snapshots calls s)))"
proof (induction calls arbitrary: s)
  case Nil
  then show ?case by (simp add: snapshots_def)
next
  case (Cons c calls)
  have "distinct (map date (price_history (snapshot (fst c) (snd c) s)))"
    using Cons.prems by (simp add: dates_snapshot)
  from Cons.IH [OF this] show ?case by (simp add: snapshots_def)
qed

lemma set_dates_snapshots:
  "set (map date (price_history (snapshots calls s))) =
   set (map date (price_history s)) \<union> fst ` set calls"
proof (induction calls arbitrary: s)
  case Nil
  then show ?case by (simp add: snapshots_def)
next
  case (Cons c calls)
  have "set (map date (price_history (snapshots calls (snapshot (fst c) (snd c) s)))) =
        set (map date (price_history (snapshot (fst c) (snd c) s))) \<union> fst ` set calls"
    by (rule Cons.IH)
  then show ?case by (auto simp add: snapshots_def dates_snapshot)
qed

lemma strictly_ascending_sort:
  assumes "distinct (map date df)"
  shows "sorted_wrt (<) (map date (sort_values_date df))"
proof -
  have "mset (map date (sort_values_date df)) = mset (map date df)"
    by (simp add: sort_values_date_def)
  then have "distinct (map date (sort_values_date df))"
    using assms mset_eq_imp_distinct_iff by blast
  moreover have "sorted (map date (sort_values_date df))"
    by (simp add: sort_values_date_def)
  ultimately show ?thesis by (simp add: strict_sorted_iff)
qed

lemma history_example_calls:
  "price_history (snapshots example_calls seeded) =
     [\<lparr>date = (2024, 1, 2), price = default_prices\<rparr>,
      \<lparr>date = (2024, 1, 3), price = default_prices\<rparr>,
      \<lparr>date = (2024, 1, 1), price = example_holdings\<rparr>]"
  by (simp add: snapshots_def example_calls_def price_history_update snapshot_def
      price_history_seeded del: One_nat_def)

text \<open>
  C8. Start from a history with one row per date and run any sequence of snapshots, in
  any order of dates. Then \<^verbatim>\<open>create_price_chart\<close> returns the session unchanged, and
  there is a series that holds exactly the rows of the history, is strictly ascending
  by date and has the dates of the start history and of the calls, such that the figure
  returned is the four traces, one per metal, whose x data are the dates of the series
  and whose y data are that metal's prices along the series (no figure when the series
  has at most one row).
\<close>

theorem asSeries_strictly_ascending:
  assumes "distinct (map date (price_history s))"
  shows "\<exists>series.
           mset series = mset (price_history (snapshots calls s))
         \<and> sorted_wrt (<) (map date series)
         \<and> set (map date series) = set (map date (price_history s)) \<union> fst ` set calls
         \<and> create_price_chart (snapshots calls s) =
             (if length series \<le> 1 then None
              else Some (map (\<lambda>metal. \<lparr>trace_name = capitalize (key metal),
                                          trace_x = map date series,
                                          trace_y = map (\<lambda>r. price r metal) series\<rparr>)
                           [Gold, Silver, Platinum, Palladium]),
              snapshots calls s)"
proof -
  let ?h = "price_history (snapshots calls s)"
  have "distinct (map date ?h)"
    using assms by (rule distinct_dates_snapshots)
  then have "sorted_wrt (<) (map date (sort_values_date ?h))"
    by (rule strictly_ascending_sort)
  moreover have "mset (sort_values_date ?h) = mset ?h"
    by (simp add: sort_values_date_def)
  moreover have "set (map date (sort_values_date ?h)) =
           set (map date (price_history s)) \<union> fst ` set calls"
    using set_dates_snapshots [of calls s] by (simp add: sort_values_date_def)
  moreover have "create_price_chart (snapshots calls s) =
             (if length (sort_values_date ?h) \<le> 1 then None
              else Some (map (\<lambda>metal. \<lparr>trace_name = capitalize (key metal),
                                          trace_x = map date (sort_values_date ?h),
                                          trace_y = map (\<lambda>r. price r metal) (sort_values_date ?h)\<rparr>)
                           [Gold, Silver, Platinum, Palladium]),
              snapshots calls s)"
    by (simp add: create_price_chart_def Let_def metals_def)
  ultimately show ?thesis by blast
qed

theorem asSeries_strictly_ascending_witness:
  "distinct (map date (price_history seeded))
   \<and> map date (price_history (snapshots example_calls seeded)) =
       [(2024, 1, 2), (2024, 1, 3), (2024, 1, 1)]
   \<and> create_price_chart (snapshots example_calls seeded) =
       (Some [\<lparr>trace_name = ''Gold'', trace_x = [(2024, 1, 1), (2024, 1, 2), (2024, 1, 3)],
               trace_y = [2, 2000, 2000]\<rparr>,
              \<lparr>trace_name = ''Silver'', trace_x = [(2024, 1, 1), (2024, 1, 2), (2024, 1, 3)],
               trace_y = [0, 25, 25]\<rparr>,
              \<lparr>trace_name = ''Platinum'', trace_x = [(2024, 1, 1), (2024, 1, 2), (2024, 1, 3)],
               trace_y = [1, 950, 950]\<rparr>,
              \<lparr>trace_name = ''Palladium'', trace_x = [(2024, 1, 1), (2024, 1, 2), (2024, 1, 3)],
               trace_y = [0, 1800, 1800]\<rparr>],
        snapshots example_calls seeded)
   \<and> (\<exists>series. mset series = mset (price_history (snapshots example_calls seeded))
         \<and> sorted_wrt (<) (map date series)
         \<and> fst (create_price_chart (snapshots example_calls seeded)) =
             Some (map (\<lambda>metal. \<lparr>trace_name = capitalize (key metal),
                                    trace_x = map date series,
                                    trace_y = map (\<lambda>r. price r metal) series\<rparr>)
                     [Gold, Silver, Platinum, Palladium]))"
proof -
  have h: "distinct (map date (price_history seeded))"
    by (simp add: price_history_seeded)
  have c: "create_price_chart (snapshots example_calls seeded) =
       (Some [\<lparr>trace_name = ''Gold'', trace_x = [(2024, 1, 1), (2024, 1, 2), (2024, 1, 3)],
               trace_y = [2, 2000, 2000]\<rparr>,
              \<lparr>trace_name = ''Silver'', trace_x = [(2024, 1, 1), (2024, 1, 2), (2024, 1, 3)],
               trace_y = [0, 25, 25]\<rparr>,
              \<lparr>trace_name = ''Platinum'', trace_x = [(2024, 1, 1), (2024, 1, 2), (2024, 1, 3)],
               trace_y = [1, 950, 950]\<rparr>,
              \<lparr>trace_name = ''Palladium'', trace_x = [(2024, 1, 1), (2024, 1, 2), (2024, 1, 3)],
               trace_y = [0, 1800, 1800]\<rparr>],
        snapshots example_calls seeded)"
    by (simp add: create_price_chart_def Let_def metals_def history_example_calls
        sort_values_date_def capitalize_key del: One_nat_def)
  from asSeries_strictly_ascending [OF h, of example_calls] obtain series where
    s: "mset series = mset (price_history (snapshots example_calls seeded))"
       "sorted_wrt (<) (map date series)"
    and ch: "create_price_chart (snapshots example_calls seeded) =
             (if length series \<le> 1 then None
              else Some (map (\<lambda>metal. \<lparr>trace_name = capitalize (key metal),
                                          trace_x = map date series,
                                          trace_y = map (\<lambda>r. price r metal) series\<rparr>)
                           [Gold, Silver, Platinum, Palladium]),
              snapshots example_calls seeded)"
    by blast
  from s(1) have "length series = length (price_history (snapshots example_calls seeded))"
    by (rule mset_eq_length)
  then have "\<not> length series \<le> 1" by (simp add: history_example_calls)
  with ch have "fst (create_price_chart (snapshots example_calls seeded)) =
             Some (map (\<lambda>metal. \<lparr>trace_name = capitalize (key metal),
                                    trace_x = map date series,
                                    trace_y = map (\<lambda>r. price r metal) series\<rparr>)
                     [Gold, Silver, Platinum, Palladium])"
    by simp
  with s have "\<exists>series. mset series = mset (price_history (snapshots example_calls seeded))
         \<and> sorted_wrt (<) (map date series)
         \<and> fst (create_price_chart (snapshots example_calls seeded)) =
             Some (map (\<lambda>metal. \<lparr>trace_name = capitalize (key metal),
                                    trace_x = map date series,
                                    trace_y = map (\<lambda>r. price r metal) series\<rparr>)
                     [Gold, Silver, Platinum, Palladium])"
    by blast
  moreover have "map date (price_history (snapshots example_calls seeded)) =
       [(2024, 1, 2), (2024, 1, 3), (2024, 1, 1)]"
    by (simp add: history_example_calls)
  ultimately show ?thesis using h c by blast
qed

text \<open>
  C7. At most one row per date is an invariant of the history: the history seeded by
  \<^verbatim>\<open>initialize_session_state\<close> has distinct dates; \<^verbatim>\<open>update_price_history\<close> keeps
  the dates distinct, and when today's date is present it leaves the list of dates as it
  was (it replaces, it does not append); the clear button leaves exactly one row, for
  today with the current prices.
\<close>
theorem one_row_per_date_invariant:
  "distinct (map date (price_history (initialize_session_state today0 fresh)))
   \<and> (distinct (map date (price_history s)) \<longrightarrow>
        distinct (map date (price_history (update_price_history today s))))
   \<and> (today \<in> set (map date (price_history s)) \<longrightarrow>
        map date (price_history (update_price_history today s)) = map date (price_history s))
   \<and> price_history (clear_history today s) = [\<lparr>date = today, price = metal_prices s\<rparr>]"
  by (simp add: dates_update clear_history_def initialize_session_state_def fresh_def)

theorem one_row_per_date_invariant_witness:
  "distinct (map date (price_history unsorted_session))
   \<and> (2024, 1, 1) \<in> set (map date (price_history unsorted_session))
   \<and> distinct (map date (price_history (update_price_history (2024, 1, 1) unsorted_session)))
   \<and> map date (price_history (update_price_history (2024, 1, 1) unsorted_session)) =
       [(2024, 1, 2), (2024, 1, 1)]"
proof -
  have h: "map date (price_history unsorted_session) = [(2024, 1, 2), (2024, 1, 1)]"
    by (simp add: unsorted_session_def dates_update initialize_session_state_def fresh_def)
  have d: "distinct (map date (price_history unsorted_session))"
    by (simp add: h)
  have m: "(2024, 1, 1) \<in> set (map date (price_history unsorted_session))"
    by (simp add: h)
  from one_row_per_date_invariant [of "(2024, 1, 2)" unsorted_session "(2024, 1, 1)"] d m
  have "distinct (map date (price_history (update_price_history (2024, 1, 1) unsorted_session)))"
    and "map date (price_history (update_price_history (2024, 1, 1) unsorted_session)) =
           map date (price_history unsorted_session)"
    by blast+
  with d m h show ?thesis by simp
qed

subsection \<open>The exported text\<close>






















subsection \<open>The import\<close>

lemma iloc_target:
  "7 \<le> nrows df \<Longrightarrow> 4 \<le> ncols df \<Longrightarrow> iloc df (target_row m) 3 = Inr (cells df (target_row m) 3)"
  by (cases m) (simp_all add: iloc_def target_row.simps)

lemma stage_target:
  assumes "7 \<le> nrows df" "4 \<le> ncols df"
  shows "stage str2float df (target_row m) m prices =
           (case cells df (target_row m) 3 of
              None \<Rightarrow> Inr prices
            | Some c \<Rightarrow> (case py_float str2float c of
                          Inl e \<Rightarrow> Inl e
                        | Inr v \<Rightarrow> Inr (prices(m \<mapsto> v))))"
  using iloc_target [OF assms, of m] by (simp add: stage_def)

lemma stage_fails:
  assumes "7 \<le> nrows df" "4 \<le> ncols df"
    and "non_numeric str2float (cells df (target_row m) 3)"
  shows "\<exists>e c. stage str2float df (target_row m) m prices = Inl e
           \<and> cells df (target_row m) 3 = Some c \<and> py_float str2float c = Inl e"
  using assms(3) stage_target [OF assms(1,2), of str2float m prices]
  by (auto simp add: non_numeric_def split: option.splits sum.splits)

lemma stage_Inl:
  assumes "7 \<le> nrows df" "4 \<le> ncols df"
    and "stage str2float df (target_row m) m prices = Inl e"
  shows "\<exists>c. cells df (target_row m) 3 = Some c \<and> py_float str2float c = Inl e"
  using assms(3) stage_target [OF assms(1,2), of str2float m prices]
  by (auto split: option.splits sum.splits)

lemma stage_passes:
  assumes "7 \<le> nrows df" "4 \<le> ncols df"
    and "\<not> non_numeric str2float (cells df (target_row m) 3)"
  shows "stage str2float df (target_row m) m prices =
           Inr (case found str2float df m of None \<Rightarrow> prices | Some v \<Rightarrow> prices(m \<mapsto> v))"
  using assms(3) stage_target [OF assms(1,2), of str2float m prices]
  by (auto simp add: non_numeric_def found_def split: option.splits sum.splits)

lemma try_body_unfold:
  "7 \<le> nrows df \<Longrightarrow> 4 \<le> ncols df \<Longrightarrow>
   try_body str2float (Inr df) =
     (case stage str2float df (target_row Gold) Gold Map.empty of
        Inl e \<Rightarrow> Inl e
      | Inr prices \<Rightarrow>
     (case stage str2float df (target_row Silver) Silver prices of
        Inl e \<Rightarrow> Inl e
      | Inr prices \<Rightarrow>
     (case stage str2float df (target_row Platinum) Platinum prices of
        Inl e \<Rightarrow> Inl e
      | Inr prices \<Rightarrow>
     (case stage str2float df (target_row Palladium) Palladium prices of
        Inl e \<Rightarrow> Inl e
      | Inr prices \<Rightarrow> Inr (Some prices, None)))))"
  unfolding try_body_def target_row.simps by simp

lemma try_body_fails:
  assumes shape: "7 \<le> nrows df" "4 \<le> ncols df"
    and bad: "non_numeric str2float (cells df (target_row m) 3)"
  shows "\<exists>e k c. try_body str2float (Inr df) = Inl e
           \<and> cells df (target_row k) 3 = Some c \<and> py_float str2float c = Inl e"
proof -
  note fails = stage_fails [OF shape bad]
  note inl = stage_Inl [OF shape]
  show ?thesis
  proof (cases "stage str2float df (target_row Gold) Gold Map.empty")
    case (Inl e)
    with inl [OF Inl] show ?thesis by (auto simp add: try_body_unfold [OF shape])
  next
    case g: (Inr p1)
    show ?thesis
    proof (cases "stage str2float df (target_row Silver) Silver p1")
      case (Inl e)
      with g inl [OF Inl] show ?thesis by (auto simp add: try_body_unfold [OF shape])
    next
      case s: (Inr p2)
      show ?thesis
      proof (cases "stage str2float df (target_row Platinum) Platinum p2")
        case (Inl e)
        with g s inl [OF Inl] show ?thesis by (auto simp add: try_body_unfold [OF shape])
      next
        case pt: (Inr p3)
        show ?thesis
        proof (cases "stage str2float df (target_row Palladium) Palladium p3")
          case (Inl e)
          with g s pt inl [OF Inl] show ?thesis by (auto simp add: try_body_unfold [OF shape])
        next
          case pd: (Inr p4)
          from fails [of Map.empty] fails [of p1] fails [of p2] fails [of p3] g s pt pd
          show ?thesis by (cases m) auto
        qed
      qed
    qed
  qed
qed

lemma upload_error:
  assumes "load_prices_from_excel str2float f = (None, Some msg)" and "msg \<noteq> []"
  shows "upload str2float (Some f) s = (s, [error msg])"
  using assms by (simp add: upload_def truthy_dict_def truthy_str_def)

lemma parse_error_parsed:
  assumes "7 \<le> nrows df" and "4 \<le> ncols df"
    and "non_numeric str2float (cells df (target_row m) 3)"
  shows "\<exists>e. load_prices_from_excel str2float (Inr df) =
               (None, Some (''Error reading Excel file: '' @ str e))
           \<and> upload str2float (Some (Inr df)) s =
               (s, [error (''Error reading Excel file: '' @ str e)])
           \<and> (\<exists>k c. cells df (target_row k) 3 = Some c \<and> py_float str2float c = Inl e)
           \<and> ''Error reading Excel file: '' @ str e \<noteq>
               ''Excel file doesn't have enough rows/columns to read from D4:D7''"
proof -
  from try_body_fails [OF assms] obtain e k c where
    e: "try_body str2float (Inr df) = Inl e" and
    c: "cells df (target_row k) 3 = Some c" "py_float str2float c = Inl e"
    by blast
  from e have l: "load_prices_from_excel str2float (Inr df) =
               (None, Some (''Error reading Excel file: '' @ str e))"
    by (simp add: load_prices_from_excel_def)
  from upload_error [OF l] have "upload str2float (Some (Inr df)) s =
               (s, [error (''Error reading Excel file: '' @ str e)])"
    by simp
  moreover have "''Error reading Excel file: '' @ str e \<noteq>
               ''Excel file doesn't have enough rows/columns to read from D4:D7''"
    by simp
  ultimately show ?thesis using l c by blast
qed

lemma sheet_simps [simp]:
  "nrows (sheet n d4 d5 d6 d7) = n" "ncols (sheet n d4 d5 d6 d7) = 4"
  "cells (sheet n d4 d5 d6 d7) (target_row Gold) 3 = d4"
  "cells (sheet n d4 d5 d6 d7) (target_row Silver) 3 = d5"
  "cells (sheet n d4 d5 d6 d7) (target_row Platinum) 3 = d6"
  "cells (sheet n d4 d5 d6 d7) (target_row Palladium) 3 = d7"
  by (simp_all add: sheet_def target_row.simps)

text \<open>
  C5. For a parsed table with fewer than 7 rows or fewer than 4 columns
  \<^verbatim>\<open>load_prices_from_excel\<close> returns no price dictionary and the error text that says
  the file has not enough rows or columns to read D4:D7, and the upload branch shows that
  error and leaves the session as it was.
\<close>
theorem layout_error:
  assumes "nrows df < 7 \<or> ncols df < 4"
  shows "load_prices_from_excel str2float (Inr df) =
           (None, Some ''Excel file doesn't have enough rows/columns to read from D4:D7'')
       \<and> upload str2float (Some (Inr df)) s =
           (s, [error ''Excel file doesn't have enough rows/columns to read from D4:D7''])"
proof -
  have l: "load_prices_from_excel str2float (Inr df) =
           (None, Some ''Excel file doesn't have enough rows/columns to read from D4:D7'')"
    using assms by (auto simp add: load_prices_from_excel_def try_body_def)
  from upload_error [OF l] l show ?thesis by simp
qed

theorem layout_error_witness:
  "(nrows short_sheet < 7 \<or> ncols short_sheet < 4)
   \<and> load_prices_from_excel reject (Inr short_sheet) =
       (None, Some ''Excel file doesn't have enough rows/columns to read from D4:D7'')
   \<and> fst (upload reject (Some (Inr short_sheet)) seeded) = seeded"
proof -
  have h: "nrows short_sheet < 7 \<or> ncols short_sheet < 4"
    by (simp add: short_sheet_def)
  from layout_error [OF h, of reject seeded] h show ?thesis by simp
qed

lemma try_body_passes:
  assumes shape: "7 \<le> nrows df" "4 \<le> ncols df"
    and ok: "\<forall>m. \<not> non_numeric str2float (cells df (target_row m) 3)"
  shows "try_body str2float (Inr df) = Inr (Some (found str2float df), None)"
proof -
  define add :: "metal \<Rightarrow> (metal \<rightharpoonup> 'a) \<Rightarrow> (metal \<rightharpoonup> 'a)" where
    "add m prices = (case found str2float df m of None \<Rightarrow> prices | Some v \<Rightarrow> prices(m \<mapsto> v))"
    for m prices
  have p: "stage str2float df (target_row m) m prices = Inr (add m prices)" for m prices
    using stage_passes [OF shape ok [rule_format], of m prices] by (simp add: add_def)
  have "add Palladium (add Platinum (add Silver (add Gold Map.empty))) = found str2float df"
  proof
    fix k
    show "add Palladium (add Platinum (add Silver (add Gold Map.empty))) k = found str2float df k"
      by (cases k) (simp_all add: add_def split: option.splits)
  qed
  then show ?thesis
    by (simp add: try_body_unfold [OF shape] p)
qed

lemma falsy_dict_empty:
  assumes "\<not> truthy_dict (Some m)"
  shows "m k = None"
  using assms by (cases k) (auto simp add: truthy_dict_def metals_def has_key_def split: option.splits if_splits)

lemma upload_merge:
  assumes "load_prices_from_excel str2float f = (Some prices, None)"
  shows "fst (upload str2float (Some f) s) = s\<lparr>metal_prices := dict_update (metal_prices s) prices\<rparr>"
proof (cases "truthy_dict (Some prices)")
  case True
  with assms show ?thesis by (simp add: upload_def)
next
  case False
  then have "prices k = None" for k by (rule falsy_dict_empty)
  then have "dict_update (metal_prices s) prices = metal_prices s"
    by (simp add: dict_update_def fun_eq_iff)
  with False assms show ?thesis by (simp add: upload_def truthy_str_def)
qed

lemma found_cases:
  assumes "\<not> non_numeric str2float (cells df (target_row m) 3)"
  shows "(cells df (target_row m) 3 = None \<and> found str2float df m = None)
       \<or> (\<exists>c v. cells df (target_row m) 3 = Some c \<and> py_float str2float c = Inr v
                 \<and> found str2float df m = Some v)"
  using assms by (auto simp add: non_numeric_def found_def split: option.splits sum.splits)

text \<open>
  C6. Take a table of at least 7 rows and 4 columns in which each of the four target
  cells is empty or coerced by \<^verbatim>\<open>float\<close>. Then \<^verbatim>\<open>load_prices_from_excel\<close> returns no
  error and the dictionary \<open>found\<close>, which has no entry for a metal whose cell is empty
  and the coerced value for every other metal; the upload branch stores the found values
  and leaves the price of every metal without an entry as it was, and shows no error.
\<close>
theorem import_success:
  assumes "7 \<le> nrows df" and "4 \<le> ncols df"
    and "\<forall>m. \<not> non_numeric str2float (cells df (target_row m) 3)"
  shows "load_prices_from_excel str2float (Inr df) = (Some (found str2float df), None)
       \<and> (\<forall>m. (cells df (target_row m) 3 = None \<and> found str2float df m = None)
              \<or> (\<exists>c v. cells df (target_row m) 3 = Some c \<and> py_float str2float c = Inr v
                        \<and> found str2float df m = Some v))
       \<and> fst (upload str2float (Some (Inr df)) s) =
           s\<lparr>metal_prices :=
                (\<lambda>m. case found str2float df m of Some v \<Rightarrow> v | None \<Rightarrow> metal_prices s m)\<rparr>
       \<and> snd (upload str2float (Some (Inr df)) s) \<in> {[], [success]}"
proof -
  have l: "load_prices_from_excel str2float (Inr df) = (Some (found str2float df), None)"
    using try_body_passes [OF assms] by (simp add: load_prices_from_excel_def)
  have "snd (upload str2float (Some (Inr df)) s) \<in> {[], [success]}"
    using l by (simp add: upload_def truthy_str_def)
  moreover have "fst (upload str2float (Some (Inr df)) s) =
           s\<lparr>metal_prices :=
                (\<lambda>m. case found str2float df m of Some v \<Rightarrow> v | None \<Rightarrow> metal_prices s m)\<rparr>"
    using upload_merge [OF l, of s] by (simp add: dict_update_def)
  moreover have "\<forall>m. (cells df (target_row m) 3 = None \<and> found str2float df m = None)
              \<or> (\<exists>c v. cells df (target_row m) 3 = Some c \<and> py_float str2float c = Inr v
                        \<and> found str2float df m = Some v)"
    using assms(3) found_cases by blast
  ultimately show ?thesis using l by blast
qed

lemma metal_prices_seeded: "metal_prices seeded = default_prices"
  by (simp add: seeded_def initialize_session_state_def fresh_def)

theorem import_success_witness:
  "7 \<le> nrows gap_sheet \<and> 4 \<le> ncols gap_sheet
   \<and> (\<forall>m. \<not> non_numeric reject (cells gap_sheet (target_row m) 3))
   \<and> map (found reject gap_sheet) [Gold, Silver, Platinum, Palladium] =
       [Some 2500, Some 30, None, Some 2200]
   \<and> map (metal_prices (fst (upload reject (Some (Inr gap_sheet)) seeded)))
       [Gold, Silver, Platinum, Palladium] = [2500, 30, 950, 2200]"
proof -
  have h1: "7 \<le> nrows gap_sheet" and h2: "4 \<le> ncols gap_sheet"
    by (simp_all add: gap_sheet_def)
  have h3: "\<forall>m. \<not> non_numeric reject (cells gap_sheet (target_row m) 3)"
  proof
    fix m show "\<not> non_numeric reject (cells gap_sheet (target_row m) 3)"
      by (cases m) (simp_all add: gap_sheet_def non_numeric_def)
  qed
  have f: "map (found reject gap_sheet) [Gold, Silver, Platinum, Palladium] =
       [Some 2500, Some 30, None, Some 2200]"
    by (simp add: found_def gap_sheet_def)
  from import_success [OF h1 h2 h3, of seeded]
  have "fst (upload reject (Some (Inr gap_sheet)) seeded) =
          seeded\<lparr>metal_prices :=
             (\<lambda>m. case found reject gap_sheet m of Some v \<Rightarrow> v | None \<Rightarrow> metal_prices seeded m)\<rparr>"
    by blast
  with f have "map (metal_prices (fst (upload reject (Some (Inr gap_sheet)) seeded)))
       [Gold, Silver, Platinum, Palladium] = [2500, 30, 950, 2200]"
    by (simp add: metal_prices_seeded)
  with h1 h2 h3 f show ?thesis by blast
qed

text \<open>
  The seeded defaults and the reset button give positive prices; the import below does
  not.
\<close>

lemma default_prices_positive: "0 < (default_prices m :: real)"
  by (cases m) simp_all

lemma reset_all_prices_positive: "0 < (metal_prices (reset_all_prices s) m :: real)"
  by (simp add: reset_all_prices_def default_prices_positive)

text \<open>
  C9. The import does not keep prices non-negative: for the sheet with -5 in D4 and
  D5:D7 empty, \<^verbatim>\<open>load_prices_from_excel\<close> returns the dictionary with gold -5 and the
  upload branch stores it, so that the gold price of the session is negative.
\<close>
theorem import_stores_negative_price:
  "load_prices_from_excel str2float (Inr negative_sheet) = (Some [Gold \<mapsto> - 5], None)
   \<and> metal_prices (fst (upload str2float (Some (Inr negative_sheet)) seeded)) Gold = - 5
   \<and> metal_prices (fst (upload str2float (Some (Inr negative_sheet)) seeded)) Gold < 0"
proof -
  have h1: "7 \<le> nrows negative_sheet" and h2: "4 \<le> ncols negative_sheet"
    by (simp_all add: negative_sheet_def)
  have st: "stage str2float negative_sheet (target_row m) m prices =
          (if m = Gold then Inr (prices(Gold \<mapsto> - 5)) else Inr prices)" for m prices
    using stage_target [OF h1 h2, of str2float m prices]
    by (cases m) (simp_all add: negative_sheet_def)
  have l: "load_prices_from_excel str2float (Inr negative_sheet) = (Some [Gold \<mapsto> - 5], None)"
    by (simp add: load_prices_from_excel_def try_body_unfold [OF h1 h2] st)
  from upload_merge [OF l, of seeded] l show ?thesis
    by (simp add: dict_update_def)
qed

subsection \<open>The reader's missing-value markers\<close>

lemma na_filter_simps [simp]:
  "na_filter None = None" "na_filter (Some (Number v)) = Some (Number v)"
  "na_filter (Some (Text ''N/A'')) = None" "na_filter (Some (Text ''abc'')) = Some (Text ''abc'')"
  by (simp_all add: na_filter_def na_values_def)

lemma read_excel_sheet:
  "read_excel (Inr (sheet n d4 d5 d6 d7)) =
     Inr (sheet n (na_filter d4) (na_filter d5) (na_filter d6) (na_filter d7))"
  by (simp add: read_excel_def sheet_def fun_eq_iff)

text \<open>
  C1, as stated, fails. In the sheet with the text N/A in D5 and numbers in D4, D6 and D7
  a target cell is not empty and not numeric, yet the reader hands that cell over as
  empty, \<^verbatim>\<open>load_prices_from_excel\<close> skips it and returns the other three prices with no
  error, and the upload branch stores them: three of the four prices change.
\<close>

theorem na_text_import_succeeds:
  "cells na_sheet (target_row Silver) 3 = Some (Text ''N/A'')
   \<and> load_prices_from_excel reject (read_excel (Inr na_sheet)) =
       (Some [Gold \<mapsto> 2500, Platinum \<mapsto> 1000, Palladium \<mapsto> 2200], None)
   \<and> snd (upload reject (Some (read_excel (Inr na_sheet))) seeded) = [success]
   \<and> map (metal_prices seeded) [Gold, Silver, Platinum, Palladium] = [2000, 25, 950, 1800]
   \<and> map (metal_prices (fst (upload reject (Some (read_excel (Inr na_sheet))) seeded)))
       [Gold, Silver, Platinum, Palladium] = [2500, 25, 1000, 2200]"
proof -
  let ?df = "sheet 7 (Some (Number 2500)) None (Some (Number 1000)) (Some (Number (2200::real)))"
  have r: "read_excel (Inr na_sheet) = Inr ?df"
    by (simp add: na_sheet_def read_excel_sheet)
  have h1: "7 \<le> nrows ?df" and h2: "4 \<le> ncols ?df" by simp_all
  have st: "stage reject ?df (target_row m) m prices =
          (case m of Gold \<Rightarrow> Inr (prices(Gold \<mapsto> 2500)) | Silver \<Rightarrow> Inr prices
           | Platinum \<Rightarrow> Inr (prices(Platinum \<mapsto> 1000))
           | Palladium \<Rightarrow> Inr (prices(Palladium \<mapsto> 2200)))" for m prices
    using stage_target [OF h1 h2, of reject m prices] by (cases m) simp_all
  have l: "load_prices_from_excel reject (read_excel (Inr na_sheet)) =
       (Some [Gold \<mapsto> 2500, Platinum \<mapsto> 1000, Palladium \<mapsto> 2200], None)"
    by (simp add: r load_prices_from_excel_def try_body_unfold [OF h1 h2] st)
  have t: "truthy_dict (Some [Gold \<mapsto> 2500::real, Platinum \<mapsto> 1000, Palladium \<mapsto> 2200])"
    by (simp add: truthy_dict_def metals_def has_key_def)
  have "snd (upload reject (Some (read_excel (Inr na_sheet))) seeded) = [success]"
    using l t by (simp add: upload_def)
  moreover from upload_merge [OF l, of seeded]
  have "map (metal_prices (fst (upload reject (Some (read_excel (Inr na_sheet))) seeded)))
       [Gold, Silver, Platinum, Palladium] = [2500, 25, 1000, 2200]"
    by (simp add: dict_update_def metal_prices_seeded)
  moreover have "cells na_sheet (target_row Silver) 3 = Some (Text ''N/A'')"
    by (simp add: na_sheet_def)
  ultimately show ?thesis using l by (simp add: metal_prices_seeded)
qed

text \<open>
  C1, amended. Take a sheet of at least 7 rows and 4 columns in which the cell of some
  metal (rows 4 to 7 of column D), as the reader hands it over, is not empty and is
  rejected by \<^verbatim>\<open>float\<close>: a text that is not one of the reader's markers of a missing
  value and that \<^verbatim>\<open>float\<close> cannot parse. Then \<^verbatim>\<open>load_prices_from_excel\<close> returns no
  price dictionary and the error text \<^verbatim>\<open>Error reading Excel file:\<close> followed by the
  message of the exception \<^verbatim>\<open>float\<close> raised on such a target cell (a text other than the
  one for a table that is too small), and the upload branch shows that error and leaves
  the session, with all four prices, as it was.
\<close>

theorem parse_error_after_na_filter:
  assumes "7 \<le> nrows book" and "4 \<le> ncols book"
    and "non_numeric str2float (na_filter (cells book (target_row m) 3))"
  shows "\<exists>e. load_prices_from_excel str2float (read_excel (Inr book)) =
               (None, Some (''Error reading Excel file: '' @ str e))
           \<and> upload str2float (Some (read_excel (Inr book))) s =
               (s, [error (''Error reading Excel file: '' @ str e)])
           \<and> (\<exists>k t. cells book (target_row k) 3 = Some (Text t) \<and> t \<notin> set na_values
                      \<and> str2float t = Inl e)
           \<and> ''Error reading Excel file: '' @ str e \<noteq>
               ''Excel file doesn't have enough rows/columns to read from D4:D7''"
proof -
  let ?df = "book\<lparr>cells := \<lambda>i j. na_filter (cells book i j)\<rparr>"
  have r: "read_excel (Inr book) = Inr ?df" by (simp add: read_excel_def)
  have h1: "7 \<le> nrows ?df" and h2: "4 \<le> ncols ?df" using assms(1,2) by simp_all
  have h3: "non_numeric str2float (cells ?df (target_row m) 3)" using assms(3) by simp
  from parse_error_parsed [OF h1 h2 h3, of s] obtain e k c where
    l: "load_prices_from_excel str2float (Inr ?df) =
               (None, Some (''Error reading Excel file: '' @ str e))"
    and u: "upload str2float (Some (Inr ?df)) s =
               (s, [error (''Error reading Excel file: '' @ str e)])"
    and c: "cells ?df (target_row k) 3 = Some c" "py_float str2float c = Inl e"
    by blast
  from c have "\<exists>t. cells book (target_row k) 3 = Some (Text t) \<and> t \<notin> set na_values
                      \<and> str2float t = Inl e"
    by (cases "cells book (target_row k) 3")
       (auto simp add: na_filter_def split: content.splits if_splits)
  with l u show ?thesis unfolding r by (intro exI [of _ e]) auto
qed

theorem parse_error_after_na_filter_witness:
  "7 \<le> nrows text_sheet \<and> 4 \<le> ncols text_sheet
   \<and> non_numeric reject (na_filter (cells text_sheet (target_row Silver) 3))
   \<and> fst (load_prices_from_excel reject (read_excel (Inr text_sheet))) = None
   \<and> fst (upload reject (Some (read_excel (Inr text_sheet))) seeded) = seeded"
proof -
  have h1: "7 \<le> nrows text_sheet" and h2: "4 \<le> ncols text_sheet"
    by (simp_all add: text_sheet_def)
  have h3: "non_numeric reject (na_filter (cells text_sheet (target_row Silver) 3))"
    by (simp add: text_sheet_def non_numeric_def reject_def)
  from parse_error_after_na_filter [OF h1 h2 h3, of seeded]
  have "fst (load_prices_from_excel reject (read_excel (Inr text_sheet))) = None
        \<and> fst (upload reject (Some (read_excel (Inr text_sheet))) seeded) = seeded"
    by auto
  with h1 h2 h3 show ?thesis by simp
qed

end
